theory Spec2Isabelle
  imports Main
begin

section \<open>Commands issued by the test scripts\<close>

text \<open>
  Every \<^verbatim>\<open>cy.*\<close> call of the scripts puts a command on the runner's queue; nothing
  happens in the browser until the runner drains the queue. A script is therefore the
  list of commands it issues, in the order of its statements. A statement such as
  \<^verbatim>\<open>cy.get(sel).find(sel').should(chainer, value)\<close> is one chain: the query that
  starts it and the links that follow.

  The chainers are the six the scripts use: \<^verbatim>\<open>be.visible\<close>, \<^verbatim>\<open>contain\<close>,
  \<^verbatim>\<open>have.length\<close>, \<^verbatim>\<open>have.text\<close>, \<^verbatim>\<open>not.exist\<close> and \<^verbatim>\<open>include\<close>
  (\<^verbatim>\<open>.and\<close> is an alias of \<^verbatim>\<open>.should\<close>).
\<close>

datatype chainer =
    BeVisible
  | Contain string
  | HaveLength nat
  | HaveText string
  | NotExist
  | Include string

datatype link =
    Type string
  | Click
  | Find string
  | Should chainer

datatype command =
    Visit string
  | ClearAllCookies
  | ClearAllLocalStorage
  | Get string "link list"
  | Url "link list"

subsection \<open>commands.js: the login command\<close>

text \<open>
  \<^verbatim>\<open>Cypress.Commands.add('login', (username, password) => { ... })\<close>: four statements.
  Calling \<^verbatim>\<open>cy.login(u, p)\<close> issues them at the place of the call. The callback has a
  block body without \<^verbatim>\<open>return\<close>, so the commands are all it produces.
\<close>

definition login :: "string \<Rightarrow> string \<Rightarrow> command list" where
  "login username password =
     [ Visit ''https://www.saucedemo.com/'',
       Get ''#user-name'' [Type username],
       Get ''#password'' [Type password],
       Get ''#login-button'' [Click] ]"

subsection \<open>intermediate-test.cy.js: the three suites\<close>

definition users :: "string list" where
  "users = [''standard_user'', ''locked_out_user'', ''problem_user'']"

text \<open>
  A \<^verbatim>\<open>describe\<close> block: its title, the commands of its \<^verbatim>\<open>beforeEach\<close> hook, and
  its \<^verbatim>\<open>it\<close> cases (title and body) in the order they are registered.
\<close>

record suite =
  title :: string
  beforeEach :: "command list"
  tests :: "(string \<times> command list) list"

text \<open>The callback of \<^verbatim>\<open>users.forEach\<close>: one \<^verbatim>\<open>it\<close> case for the user it is given.\<close>

definition login_test :: "string \<Rightarrow> string \<times> command list" where
  \<open>login_test user =
     ( ''should handle login attempt for '' @ user,
       login user ''secret_sauce'' @
       (if user = ''locked_out_user''
        then [Get ''h3[data-test="error"]'' [Should BeVisible, Should (Contain ''locked out'')]]
        else [Url [Should (Include ''inventory'')]]) )\<close>

definition login_suite :: suite where
  "login_suite =
     \<lparr> title = ''Data-Driven Login Tests'',
       beforeEach =
         [ Visit ''https://www.saucedemo.com/'',
           ClearAllCookies,
           ClearAllLocalStorage ],
       tests = map login_test users \<rparr>"

definition product_suite :: suite where
  "product_suite =
     \<lparr> title = ''Product Tests'',
       beforeEach =
         [ Visit ''https://www.saucedemo.com/'',
           ClearAllCookies,
           ClearAllLocalStorage ] @
         login ''standard_user'' ''secret_sauce'',
       tests =
         [ (''should display all 6 products on inventory page'',
            [Get ''.inventory_list'' [Find ''.inventory_item'', Should (HaveLength 6)]]),
           (''should add product to cart and update badge'',
            [Get ''#add-to-cart-sauce-labs-backpack'' [Click],
             Get ''.shopping_cart_link'' [Should (HaveText ''1'')]]) ] \<rparr>"

definition cart_suite :: suite where
  "cart_suite =
     \<lparr> title = ''Shopping Cart Tests'',
       beforeEach =
         [Visit ''https://www.saucedemo.com/''] @
         login ''standard_user'' ''secret_sauce'' @
         [ Get ''#add-to-cart-sauce-labs-backpack'' [Click],
           Get ''.shopping_cart_link'' [Click] ],
       tests =
         [ (''should display the added product in cart'',
            [Get ''.cart_item'' [Should (HaveLength 1)]]),
           (''should remove product from cart successfully'',
            [Get ''#remove-sauce-labs-backpack'' [Click],
             Get ''.inventory_item_name'' [Should NotExist]]),
           (''should navigate to checkout page'',
            [Get ''#checkout'' [Click],
             Url [Should (Include ''checkout-step-one'')]]) ] \<rparr>"

text \<open>The file registers the suites in this order.\<close>

definition suites :: "suite list" where
  "suites = [login_suite, product_suite, cart_suite]"

subsection \<open>Scenarios: hook, then body\<close>

text \<open>
  The runner executes the cases of a suite in registration order and, for each case, the
  suite's \<^verbatim>\<open>beforeEach\<close> hook before the body. The commands of one scenario are thus
  the hook's followed by the body's.
\<close>

definition scenario :: "suite \<Rightarrow> string \<times> command list \<Rightarrow> command list" where
  "scenario S t = beforeEach S @ snd t"

definition scenarios :: "suite \<Rightarrow> (string \<times> command list) list" where
  "scenarios S = map (\<lambda>t. (fst t, scenario S t)) (tests S)"

subsection \<open>What a list of commands checks, and where a command occurs\<close>

datatype subject = Element "string list" | Location

text \<open>
  The assertions of a chain, each with the subject it is made on: the elements reached by
  a path of selectors (\<^verbatim>\<open>get\<close>, then each \<^verbatim>\<open>find\<close>), or the page location.
\<close>

fun link_checks :: "string list \<Rightarrow> link list \<Rightarrow> (subject \<times> chainer) list" where
  "link_checks p [] = []"
| "link_checks p (Should c # ls) = (Element p, c) # link_checks p ls"
| "link_checks p (Find sel # ls) = link_checks (p @ [sel]) ls"
| "link_checks p (Type t # ls) = link_checks p ls"
| "link_checks p (Click # ls) = link_checks p ls"

fun url_checks :: "link list \<Rightarrow> (subject \<times> chainer) list" where
  "url_checks [] = []"
| "url_checks (Should c # ls) = (Location, c) # url_checks ls"
| "url_checks (l # ls) = url_checks ls"

fun command_checks :: "command \<Rightarrow> (subject \<times> chainer) list" where
  "command_checks (Get sel ls) = link_checks [sel] ls"
| "command_checks (Url ls) = url_checks ls"
| "command_checks c = []"

definition checks_of :: "command list \<Rightarrow> (subject \<times> chainer) list" where
  "checks_of q = concat (map command_checks q)"

text \<open>The indices at which a command occurs in a queue, counted from \<open>i\<close>.\<close>

fun positions_from :: "nat \<Rightarrow> command \<Rightarrow> command list \<Rightarrow> nat list" where
  "positions_from i c [] = []"
| "positions_from i c (x # xs) =
     (if x = c then i # positions_from (Suc i) c xs else positions_from (Suc i) c xs)"

definition positions :: "command \<Rightarrow> command list \<Rightarrow> nat list" where
  "positions c q = positions_from 0 c q"

section \<open>The runner's contract\<close>

text \<open>
  The scripts consume a small part of the external runner: navigation, clearing of
  cookies and local storage, element queries, typing, clicking, reading the location,
  and assertions on visibility, text, count, existence and location. The application
  under test is not part of the repository, so it is a parameter: a type of browser
  states and what each primitive does on it. Waiting and retrying are the runner's
  business; a command is judged on the state the page has settled in.
\<close>

record element =
  el_text :: string
  el_visible :: bool

record 'st app =
  navigate :: "string \<Rightarrow> 'st \<Rightarrow> 'st"
  clear_cookies :: "'st \<Rightarrow> 'st"
  clear_local_storage :: "'st \<Rightarrow> 'st"
  query :: "'st \<Rightarrow> string list \<Rightarrow> element list"
  type_text :: "string list \<Rightarrow> string \<Rightarrow> 'st \<Rightarrow> 'st"
  click :: "string list \<Rightarrow> 'st \<Rightarrow> 'st"
  location :: "'st \<Rightarrow> string"

text \<open>Substring test, as \<^verbatim>\<open>include\<close> and \<^verbatim>\<open>contain\<close> need it.\<close>

fun starts_with :: "string \<Rightarrow> string \<Rightarrow> bool" where
  "starts_with s [] = True"
| "starts_with [] (c # cs) = False"
| "starts_with (x # xs) (c # cs) = (x = c \<and> starts_with xs cs)"

fun str_includes :: "string \<Rightarrow> string \<Rightarrow> bool" where
  "str_includes [] sub = (sub = [])"
| "str_includes (x # xs) sub = (starts_with (x # xs) sub \<or> str_includes xs sub)"

text \<open>
  An assertion on the elements a chain has reached: some element visible, some element's
  text containing the value, the number of elements, the joined text of the elements,
  no element at all. \<^verbatim>\<open>include\<close> is for strings and fails on elements.
\<close>

fun holds :: "chainer \<Rightarrow> element list \<Rightarrow> bool" where
  "holds BeVisible els = list_ex el_visible els"
| "holds (Contain t) els = list_ex (\<lambda>e. str_includes (el_text e) t) els"
| "holds (HaveLength n) els = (length els = n)"
| "holds (HaveText t) els = (els \<noteq> [] \<and> concat (map el_text els) = t)"
| "holds NotExist els = (els = [])"
| "holds (Include t) els = False"

text \<open>An assertion on the location string; the element chainers fail on a string.\<close>

fun holds_text :: "chainer \<Rightarrow> string \<Rightarrow> bool" where
  "holds_text (Include t) s = str_includes s t"
| "holds_text (Contain t) s = str_includes s t"
| "holds_text (HaveLength n) s = (length s = n)"
| "holds_text c s = False"

text \<open>The two ways a scenario fails: an element is not found, an assertion is not met.\<close>

datatype failure =
    ElementNotFound "string list"
  | AssertionFailed subject chainer

fun run_links :: "'st app \<Rightarrow> string list \<Rightarrow> link list \<Rightarrow> 'st \<Rightarrow> failure + 'st" where
  "run_links A p [] s = Inr s"
| "run_links A p (Should c # ls) s =
     (if holds c (query A s p) then run_links A p ls s
      else if query A s p = [] then Inl (ElementNotFound p)
      else Inl (AssertionFailed (Element p) c))"
| "run_links A p (Find sel # ls) s =
     (if query A s p = [] then Inl (ElementNotFound p)
      else run_links A (p @ [sel]) ls s)"
| "run_links A p (Type t # ls) s =
     (if query A s p = [] then Inl (ElementNotFound p)
      else run_links A p ls (type_text A p t s))"
| "run_links A p (Click # ls) s =
     (if query A s p = [] then Inl (ElementNotFound p)
      else run_links A p ls (click A p s))"

fun run_url_links :: "'st app \<Rightarrow> link list \<Rightarrow> 'st \<Rightarrow> failure + 'st" where
  "run_url_links A [] s = Inr s"
| "run_url_links A (Should c # ls) s =
     (if holds_text c (location A s) then run_url_links A ls s
      else Inl (AssertionFailed Location c))"
| "run_url_links A (l # ls) s = Inl (ElementNotFound [])"

fun run_command :: "'st app \<Rightarrow> command \<Rightarrow> 'st \<Rightarrow> failure + 'st" where
  "run_command A (Visit u) s = Inr (navigate A u s)"
| "run_command A ClearAllCookies s = Inr (clear_cookies A s)"
| "run_command A ClearAllLocalStorage s = Inr (clear_local_storage A s)"
| "run_command A (Get sel ls) s = run_links A [sel] ls s"
| "run_command A (Url ls) s = run_url_links A ls s"

text \<open>Draining a queue: the first failure ends the scenario.\<close>

fun run :: "'st app \<Rightarrow> command list \<Rightarrow> 'st \<Rightarrow> failure + 'st" where
  "run A [] s = Inr s"
| "run A (c # cs) s =
     (case run_command A c s of Inl e \<Rightarrow> Inl e | Inr s' \<Rightarrow> run A cs s')"

section \<open>A small shop to run the scenarios on\<close>

text \<open>
  One application to instantiate the parameter with: a login form, a listing of six
  products, a cart kept in local storage and the first checkout page. It serves as the
  concrete input on which the theorems below are exercised.
\<close>

datatype page = LoginPage | InventoryPage | CartPage | CheckoutStepOne | OtherPage

record shop_state =
  page :: page
  user_field :: string
  pass_field :: string
  error_msg :: "string option"
  session :: "string option"
  cart :: "string list"

definition products :: "string list" where
  "products =
     [ ''sauce-labs-backpack'', ''sauce-labs-bike-light'', ''sauce-labs-bolt-t-shirt'',
       ''sauce-labs-fleece-jacket'', ''sauce-labs-onesie'', ''sauce-labs-red-t-shirt'' ]"

definition shown :: "string \<Rightarrow> element" where
  "shown t = \<lparr> el_text = t, el_visible = True \<rparr>"

definition badge :: "string list \<Rightarrow> string" where
  "badge c = (if c = [] then [] else take 1 (drop (length c - 1) ''123456''))"

definition shop_navigate :: "string \<Rightarrow> shop_state \<Rightarrow> shop_state" where
  "shop_navigate u s =
     (if u = ''https://www.saucedemo.com/''
      then s\<lparr> page := LoginPage, user_field := [], pass_field := [], error_msg := None \<rparr>
      else s\<lparr> page := OtherPage \<rparr>)"

definition shop_query :: "shop_state \<Rightarrow> string list \<Rightarrow> element list" where
  \<open>shop_query s p =
     (case page s of
        LoginPage \<Rightarrow>
          if p = [''#user-name''] then [shown (user_field s)]
          else if p = [''#password''] then [shown (pass_field s)]
          else if p = [''#login-button''] then [shown ''Login'']
          else if p = [''h3[data-test="error"]'']
          then (case error_msg s of None \<Rightarrow> [] | Some m \<Rightarrow> [shown m])
          else []
      | InventoryPage \<Rightarrow>
          if p = [''.inventory_list''] then [shown []]
          else if p = [''.inventory_list'', ''.inventory_item''] then map shown products
          else if p = [''.shopping_cart_link''] then [shown (badge (cart s))]
          else map (\<lambda>g. shown ''Add to cart'')
                 (filter (\<lambda>g. p = [''#add-to-cart-'' @ g] \<and> g \<notin> set (cart s)) products)
               @ map (\<lambda>g. shown ''Remove'')
                   (filter (\<lambda>g. p = [''#remove-'' @ g]) (cart s))
      | CartPage \<Rightarrow>
          if p = [''.cart_item''] then map shown (cart s)
          else if p = [''.inventory_item_name''] then map shown (cart s)
          else if p = [''.shopping_cart_link''] then [shown (badge (cart s))]
          else if p = [''#checkout''] then [shown ''Checkout'']
          else map (\<lambda>g. shown ''Remove'')
                 (filter (\<lambda>g. p = [''#remove-'' @ g]) (cart s))
      | CheckoutStepOne \<Rightarrow> []
      | OtherPage \<Rightarrow> [])\<close>

definition shop_type :: "string list \<Rightarrow> string \<Rightarrow> shop_state \<Rightarrow> shop_state" where
  "shop_type p t s =
     (if page s = LoginPage \<and> p = [''#user-name''] then s\<lparr> user_field := user_field s @ t \<rparr>
      else if page s = LoginPage \<and> p = [''#password''] then s\<lparr> pass_field := pass_field s @ t \<rparr>
      else s)"

definition sign_in :: "shop_state \<Rightarrow> shop_state" where
  "sign_in s =
     (if pass_field s \<noteq> ''secret_sauce''
      then s\<lparr> error_msg :=
             Some ''Epic sadface: Username and password do not match any user in this service'' \<rparr>
      else if user_field s = ''locked_out_user''
      then s\<lparr> error_msg := Some ''Epic sadface: Sorry, this user has been locked out.'' \<rparr>
      else if user_field s = ''standard_user'' \<or> user_field s = ''problem_user''
      then s\<lparr> page := InventoryPage, session := Some (user_field s), error_msg := None \<rparr>
      else s\<lparr> error_msg :=
             Some ''Epic sadface: Username and password do not match any user in this service'' \<rparr>)"

definition shop_click :: "string list \<Rightarrow> shop_state \<Rightarrow> shop_state" where
  "shop_click p s =
     (case page s of
        LoginPage \<Rightarrow> if p = [''#login-button''] then sign_in s else s
      | InventoryPage \<Rightarrow>
          if p = [''.shopping_cart_link''] then s\<lparr> page := CartPage \<rparr>
          else s\<lparr> cart :=
                 filter (\<lambda>g. p \<noteq> [''#remove-'' @ g]) (cart s)
                 @ filter (\<lambda>g. p = [''#add-to-cart-'' @ g] \<and> g \<notin> set (cart s)) products \<rparr>
      | CartPage \<Rightarrow>
          if p = [''#checkout''] then s\<lparr> page := CheckoutStepOne \<rparr>
          else s\<lparr> cart := filter (\<lambda>g. p \<noteq> [''#remove-'' @ g]) (cart s) \<rparr>
      | CheckoutStepOne \<Rightarrow> s
      | OtherPage \<Rightarrow> s)"

definition shop_location :: "shop_state \<Rightarrow> string" where
  "shop_location s =
     (case page s of
        LoginPage \<Rightarrow> ''https://www.saucedemo.com/''
      | InventoryPage \<Rightarrow> ''https://www.saucedemo.com/inventory.html''
      | CartPage \<Rightarrow> ''https://www.saucedemo.com/cart.html''
      | CheckoutStepOne \<Rightarrow> ''https://www.saucedemo.com/checkout-step-one.html''
      | OtherPage \<Rightarrow> ''about:blank'')"

definition shop :: "shop_state app" where
  "shop =
     \<lparr> navigate = shop_navigate,
       clear_cookies = (\<lambda>s. s\<lparr> session := None \<rparr>),
       clear_local_storage = (\<lambda>s. s\<lparr> cart := [] \<rparr>),
       query = shop_query,
       type_text = shop_type,
       click = shop_click,
       location = shop_location \<rparr>"

definition blank :: shop_state where
  "blank =
     \<lparr> page = OtherPage, user_field = [], pass_field = [], error_msg = None,
       session = None, cart = [] \<rparr>"

text \<open>
  A variant whose cart link reads \<open>1\<close> whatever the cart holds, as a page does that
  shows a count kept elsewhere than in the cart this browser fills.
\<close>

definition fixed_badge_shop :: "shop_state app" where
  "fixed_badge_shop =
     shop\<lparr> query := (\<lambda>s p. if p = [''.shopping_cart_link''] then [shown ''1'']
                             else shop_query s p) \<rparr>"

section \<open>Running a queue in two parts\<close>

lemma run_append:
  "run A (xs @ ys) s = (case run A xs s of Inl e \<Rightarrow> Inl e | Inr s1 \<Rightarrow> run A ys s1)"
  by (induction xs arbitrary: s) (auto split: sum.splits)

lemma run_append_Inr:
  "run A (xs @ ys) s = Inr s' \<longleftrightarrow> (\<exists>s1. run A xs s = Inr s1 \<and> run A ys s1 = Inr s')"
  by (simp add: run_append split: sum.splits)

lemma scenario_passed:
  assumes "run A (scenario S t) s = Inr s'"
  obtains s1 where "run A (beforeEach S) s = Inr s1" and "run A (snd t) s1 = Inr s'"
  using assms unfolding scenario_def run_append_Inr by blast

lemma users_cases:
  "user \<in> set users \<longleftrightarrow>
     user = ''standard_user'' \<or> user = ''locked_out_user'' \<or> user = ''problem_user''"
  by (auto simp: users_def)

lemma login_tests_cases:
  "t \<in> set (tests login_suite) \<longleftrightarrow>
     t = login_test ''standard_user'' \<or> t = login_test ''locked_out_user''
   \<or> t = login_test ''problem_user''"
  by (auto simp: login_suite_def users_def)

lemma login_suite_nth:
  "tests login_suite ! 0 = login_test ''standard_user''"
  "tests login_suite ! 1 = login_test ''locked_out_user''"
  "tests login_suite ! 2 = login_test ''problem_user''"
  by (simp_all add: login_suite_def users_def)

lemma users_nth:
  "users ! 0 = ''standard_user''"
  "users ! 1 = ''locked_out_user''"
  "users ! 2 = ''problem_user''"
  by (simp_all add: users_def)

lemma below_three:
  "i < length users \<longleftrightarrow> i = 0 \<or> i = 1 \<or> i = 2"
  by (auto simp: users_def)

section \<open>The login command\<close>

text \<open>
  C2. For every username and password, the login command issues exactly four steps in
  this order: navigate to the application root, type the username into the username
  field, type the password into the password field, click the submit control. It
  produces nothing else, and none of its steps is an assertion: it judges neither
  success nor failure.
\<close>

theorem login_steps:
  "login username password =
     [ Visit ''https://www.saucedemo.com/'',
       Get ''#user-name'' [Type username],
       Get ''#password'' [Type password],
       Get ''#login-button'' [Click] ]
   \<and> length (login username password) = 4
   \<and> checks_of (login username password) = []"
  by (simp add: login_def checks_of_def)

lemma login_scenario_positions:
  assumes "t \<in> set (tests login_suite)"
  shows "positions (Visit ''https://www.saucedemo.com/'') (scenario login_suite t) = [0, 3]"
    and "positions ClearAllCookies (scenario login_suite t) = [1]"
    and "positions ClearAllLocalStorage (scenario login_suite t) = [2]"
  using assms unfolding login_tests_cases
  by (auto simp: positions_def scenario_def login_suite_def login_test_def login_def)

lemma login_scenario_split:
  assumes "t \<in> set (tests login_suite)"
  shows "take 3 (scenario login_suite t) = beforeEach login_suite"
    and "\<exists>user \<in> set users.
           take 4 (drop 3 (scenario login_suite t)) = login user ''secret_sauce''"
  using assms unfolding login_tests_cases
  by (auto simp: scenario_def login_suite_def login_test_def login_def users_def)

lemma login_scenario_of_user:
  assumes "user \<in> set users"
  shows "\<exists>t \<in> set (tests login_suite).
           take 4 (drop 3 (scenario login_suite t)) = login user ''secret_sauce''"
proof -
  from assms have "login_test user \<in> set (tests login_suite)"
    by (simp add: login_suite_def)
  moreover have
    "take 4 (drop 3 (scenario login_suite (login_test user))) = login user ''secret_sauce''"
    by (simp add: scenario_def login_suite_def login_test_def login_def)
  ultimately show ?thesis
    by blast
qed

text \<open>
  C10. For every username and password, the first step of the login command is its own
  navigation to the root address, whatever page the browser is on: running the command
  from any state is running its remaining steps from the state the navigation leaves.
  The login suite registers three scenarios, and its setup hook has three commands.
  Each scenario the suite registers consists of the hook followed by a body that starts
  with the login command on one of the usernames; it navigates to the root exactly
  twice, at positions 0 (in the hook) and 3 (the first step of login), and the hook's
  clearing of cookies and of local storage, at positions 1 and 2, comes before login's
  navigation. Every username has such a scenario in the suite.
\<close>

theorem login_navigates_first:
  "hd (login username password) = Visit ''https://www.saucedemo.com/''
   \<and> (\<forall>A s. run A (login username password) s =
        run A (tl (login username password)) (navigate A ''https://www.saucedemo.com/'' s))
   \<and> length (tests login_suite) = 3
   \<and> length (beforeEach login_suite) = 3
   \<and> (\<forall>t \<in> set (tests login_suite).
        take 3 (scenario login_suite t) = beforeEach login_suite
      \<and> (\<exists>user \<in> set users.
            take 4 (drop 3 (scenario login_suite t)) = login user ''secret_sauce'')
      \<and> positions (Visit ''https://www.saucedemo.com/'') (scenario login_suite t) = [0, 3]
      \<and> positions ClearAllCookies (scenario login_suite t) = [1]
      \<and> positions ClearAllLocalStorage (scenario login_suite t) = [2])
   \<and> (\<forall>user \<in> set users. \<exists>t \<in> set (tests login_suite).
        take 4 (drop 3 (scenario login_suite t)) = login user ''secret_sauce'')"
proof -
  have "hd (login username password) = Visit ''https://www.saucedemo.com/''"
    by (simp add: login_def)
  moreover have "\<forall>A s. run A (login username password) s =
        run A (tl (login username password)) (navigate A ''https://www.saucedemo.com/'' s)"
    by (simp add: login_def)
  moreover have "length (tests login_suite) = 3"
    by (simp add: login_suite_def users_def)
  moreover have "length (beforeEach login_suite) = 3"
    by (simp add: login_suite_def)
  moreover have "\<forall>t \<in> set (tests login_suite).
        take 3 (scenario login_suite t) = beforeEach login_suite
      \<and> (\<exists>user \<in> set users.
            take 4 (drop 3 (scenario login_suite t)) = login user ''secret_sauce'')
      \<and> positions (Visit ''https://www.saucedemo.com/'') (scenario login_suite t) = [0, 3]
      \<and> positions ClearAllCookies (scenario login_suite t) = [1]
      \<and> positions ClearAllLocalStorage (scenario login_suite t) = [2]"
    using login_scenario_positions login_scenario_split by blast
  moreover have "\<forall>user \<in> set users. \<exists>t \<in> set (tests login_suite).
        take 4 (drop 3 (scenario login_suite t)) = login user ''secret_sauce''"
    using login_scenario_of_user by blast
  ultimately show ?thesis
    by (intro conjI)
qed

theorem login_navigates_first_witness:
  "tests login_suite ! 2 \<in> set (tests login_suite)
   \<and> take 3 (scenario login_suite (tests login_suite ! 2)) =
       [Visit ''https://www.saucedemo.com/'', ClearAllCookies, ClearAllLocalStorage]
   \<and> take 4 (drop 3 (scenario login_suite (tests login_suite ! 2))) =
       login ''problem_user'' ''secret_sauce''
   \<and> positions (Visit ''https://www.saucedemo.com/'')
       (scenario login_suite (tests login_suite ! 2)) = [0, 3]
   \<and> positions ClearAllCookies (scenario login_suite (tests login_suite ! 2)) = [1]
   \<and> positions ClearAllLocalStorage (scenario login_suite (tests login_suite ! 2)) = [2]"
proof -
  have t: "tests login_suite ! 2 \<in> set (tests login_suite)"
    unfolding login_suite_nth login_tests_cases by simp
  have b: "beforeEach login_suite =
      [Visit ''https://www.saucedemo.com/'', ClearAllCookies, ClearAllLocalStorage]"
    by (simp add: login_suite_def)
  have l: "take 4 (drop 3 (scenario login_suite (tests login_suite ! 2))) =
      login ''problem_user'' ''secret_sauce''"
    unfolding login_suite_nth
    by (simp add: scenario_def login_suite_def login_test_def login_def)
  note each = login_navigates_first [of "''problem_user''" "''secret_sauce''",
      THEN conjunct2, THEN conjunct2, THEN conjunct2, THEN conjunct2, THEN conjunct1,
      rule_format, OF t]
  from each t b l show ?thesis
    by simp
qed

section \<open>The data-driven login suite\<close>

lemma login_test_checks:
  \<open>checks_of (snd (login_test user)) =
     (if user = ''locked_out_user''
      then [ (Element [''h3[data-test="error"]''], BeVisible),
             (Element [''h3[data-test="error"]''], Contain ''locked out'') ]
      else [ (Location, Include ''inventory'') ])\<close>
  by (simp add: login_test_def login_def checks_of_def)

lemma login_test_starts_with_login:
  "take 4 (snd (login_test user)) = login user ''secret_sauce''"
  by (simp add: login_test_def login_def)

lemma login_scenario_passed:
  assumes \<open>run A (scenario login_suite (login_test user)) s = Inr s'\<close>
  shows \<open>if user = ''locked_out_user''
         then holds BeVisible (query A s' [''h3[data-test="error"]''])
            \<and> holds (Contain ''locked out'') (query A s' [''h3[data-test="error"]''])
         else str_includes (location A s') ''inventory''\<close>
proof (cases "user = ''locked_out_user''")
  case True
  from assms obtain s1 where
    \<open>run A [Get ''h3[data-test="error"]'' [Should BeVisible, Should (Contain ''locked out'')]] s1
       = Inr s'\<close>
    unfolding scenario_def login_test_def snd_conv append_assoc [symmetric] run_append_Inr
    using True by auto
  then show ?thesis
    using True by (simp split: if_splits)
next
  case False
  from assms obtain s1 where "run A [Url [Should (Include ''inventory'')]] s1 = Inr s'"
    unfolding scenario_def login_test_def snd_conv append_assoc [symmetric] run_append_Inr
    using False by auto
  then show ?thesis
    using False by (simp split: if_splits)
qed

lemma login_suite_branch:
  assumes "i < length users"
  shows \<open>snd (tests login_suite ! i) =
           login (users ! i) ''secret_sauce'' @
           (if users ! i = ''locked_out_user''
            then [Get ''h3[data-test="error"]''
                    [Should BeVisible, Should (Contain ''locked out'')]]
            else [Url [Should (Include ''inventory'')]])\<close>
    and \<open>checks_of (snd (tests login_suite ! i)) =
           (if users ! i = ''locked_out_user''
            then [ (Element [''h3[data-test="error"]''], BeVisible),
                   (Element [''h3[data-test="error"]''], Contain ''locked out'') ]
            else [ (Location, Include ''inventory'') ])\<close>
proof -
  from assms have t: "tests login_suite ! i = login_test (users ! i)"
    by (simp add: login_suite_def)
  show \<open>snd (tests login_suite ! i) =
           login (users ! i) ''secret_sauce'' @
           (if users ! i = ''locked_out_user''
            then [Get ''h3[data-test="error"]''
                    [Should BeVisible, Should (Contain ''locked out'')]]
            else [Url [Should (Include ''inventory'')]])\<close>
    unfolding t by (simp add: login_test_def)
  show \<open>checks_of (snd (tests login_suite ! i)) =
           (if users ! i = ''locked_out_user''
            then [ (Element [''h3[data-test="error"]''], BeVisible),
                   (Element [''h3[data-test="error"]''], Contain ''locked out'') ]
            else [ (Location, Include ''inventory'') ])\<close>
    unfolding t by (rule login_test_checks)
qed

lemma login_suite_branch_passed:
  assumes "i < length users"
    and "run A (scenario login_suite (tests login_suite ! i)) s = Inr s'"
  shows \<open>if users ! i = ''locked_out_user''
         then holds BeVisible (query A s' [''h3[data-test="error"]''])
            \<and> holds (Contain ''locked out'') (query A s' [''h3[data-test="error"]''])
         else str_includes (location A s') ''inventory''\<close>
proof -
  from assms(1) have "tests login_suite ! i = login_test (users ! i)"
    by (simp add: login_suite_def)
  with assms(2) show ?thesis
    using login_scenario_passed [of A "users ! i" s s'] by simp
qed

lemma login_suite_branch_passed_all:
  assumes "i < length users"
  shows \<open>\<forall>A s s'. run A (scenario login_suite (tests login_suite ! i)) s = Inr s' \<longrightarrow>
           (if users ! i = ''locked_out_user''
            then holds BeVisible (query A s' [''h3[data-test="error"]''])
               \<and> holds (Contain ''locked out'') (query A s' [''h3[data-test="error"]''])
            else str_includes (location A s') ''inventory'')\<close>
  by (intro allI impI) (rule login_suite_branch_passed [OF assms])

text \<open>
  C1. The login suite registers one scenario for each of the three seeded usernames
  \<open>standard_user\<close>, \<open>locked_out_user\<close> and \<open>problem_user\<close>, in this order. The
  scenario of a username is the login command on that username and the password
  \<open>secret_sauce\<close>, followed by a branch on the username. For \<open>locked_out_user\<close> the
  branch asserts that the error element is visible and that its text contains
  \<open>locked out\<close>; for \<open>standard_user\<close> and \<open>problem_user\<close> it asserts that the
  location contains \<open>inventory\<close>; the scenario asserts nothing else. Whenever the
  scenario passes, on any application and from any state, what it asserts holds of the
  state it ends in.
\<close>

theorem login_scenario_branches:
  \<open>users = [''standard_user'', ''locked_out_user'', ''problem_user'']
   \<and> length (tests login_suite) = length users
   \<and> (\<forall>i < length users.
        snd (tests login_suite ! i) =
          login (users ! i) ''secret_sauce'' @
          (if users ! i = ''locked_out_user''
           then [Get ''h3[data-test="error"]''
                   [Should BeVisible, Should (Contain ''locked out'')]]
           else [Url [Should (Include ''inventory'')]])
      \<and> checks_of (snd (tests login_suite ! i)) =
          (if users ! i = ''locked_out_user''
           then [ (Element [''h3[data-test="error"]''], BeVisible),
                  (Element [''h3[data-test="error"]''], Contain ''locked out'') ]
           else [ (Location, Include ''inventory'') ])
      \<and> (\<forall>A s s'. run A (scenario login_suite (tests login_suite ! i)) s = Inr s' \<longrightarrow>
           (if users ! i = ''locked_out_user''
            then holds BeVisible (query A s' [''h3[data-test="error"]''])
               \<and> holds (Contain ''locked out'') (query A s' [''h3[data-test="error"]''])
            else str_includes (location A s') ''inventory'')))\<close>
proof -
  have "users = [''standard_user'', ''locked_out_user'', ''problem_user'']"
    by (simp add: users_def)
  moreover have "length (tests login_suite) = length users"
    by (simp add: login_suite_def)
  moreover have \<open>\<forall>i < length users.
        snd (tests login_suite ! i) =
          login (users ! i) ''secret_sauce'' @
          (if users ! i = ''locked_out_user''
           then [Get ''h3[data-test="error"]''
                   [Should BeVisible, Should (Contain ''locked out'')]]
           else [Url [Should (Include ''inventory'')]])
      \<and> checks_of (snd (tests login_suite ! i)) =
          (if users ! i = ''locked_out_user''
           then [ (Element [''h3[data-test="error"]''], BeVisible),
                  (Element [''h3[data-test="error"]''], Contain ''locked out'') ]
           else [ (Location, Include ''inventory'') ])
      \<and> (\<forall>A s s'. run A (scenario login_suite (tests login_suite ! i)) s = Inr s' \<longrightarrow>
           (if users ! i = ''locked_out_user''
            then holds BeVisible (query A s' [''h3[data-test="error"]''])
               \<and> holds (Contain ''locked out'') (query A s' [''h3[data-test="error"]''])
            else str_includes (location A s') ''inventory''))\<close>
  proof (intro allI impI)
    fix i
    assume i: "i < length users"
    from login_suite_branch [OF i] login_suite_branch_passed_all [OF i]
    show \<open>snd (tests login_suite ! i) =
          login (users ! i) ''secret_sauce'' @
          (if users ! i = ''locked_out_user''
           then [Get ''h3[data-test="error"]''
                   [Should BeVisible, Should (Contain ''locked out'')]]
           else [Url [Should (Include ''inventory'')]])
      \<and> checks_of (snd (tests login_suite ! i)) =
          (if users ! i = ''locked_out_user''
           then [ (Element [''h3[data-test="error"]''], BeVisible),
                  (Element [''h3[data-test="error"]''], Contain ''locked out'') ]
           else [ (Location, Include ''inventory'') ])
      \<and> (\<forall>A s s'. run A (scenario login_suite (tests login_suite ! i)) s = Inr s' \<longrightarrow>
           (if users ! i = ''locked_out_user''
            then holds BeVisible (query A s' [''h3[data-test="error"]''])
               \<and> holds (Contain ''locked out'') (query A s' [''h3[data-test="error"]''])
            else str_includes (location A s') ''inventory''))\<close>
      by (intro conjI)
  qed
  ultimately show ?thesis
    by (intro conjI)
qed

lemma shop_standard_run:
  "run shop (scenario login_suite (login_test ''standard_user'')) blank =
     Inr \<lparr> page = InventoryPage, user_field = ''standard_user'', pass_field = ''secret_sauce'',
           error_msg = None, session = Some ''standard_user'', cart = [] \<rparr>"
  by (simp add: scenario_def login_suite_def login_test_def login_def shop_def blank_def
      shop_navigate_def shop_query_def shop_type_def shop_click_def sign_in_def shown_def
      shop_location_def)

lemma shop_locked_out_run:
  \<open>run shop (scenario login_suite (login_test ''locked_out_user'')) blank =
     Inr \<lparr> page = LoginPage, user_field = ''locked_out_user'', pass_field = ''secret_sauce'',
           error_msg = Some ''Epic sadface: Sorry, this user has been locked out.'',
           session = None, cart = [] \<rparr>\<close>
  by (simp add: scenario_def login_suite_def login_test_def login_def shop_def blank_def
      shop_navigate_def shop_query_def shop_type_def shop_click_def sign_in_def shown_def)

lemma shop_problem_run:
  "run shop (scenario login_suite (login_test ''problem_user'')) blank =
     Inr \<lparr> page = InventoryPage, user_field = ''problem_user'', pass_field = ''secret_sauce'',
           error_msg = None, session = Some ''problem_user'', cart = [] \<rparr>"
  by (simp add: scenario_def login_suite_def login_test_def login_def shop_def blank_def
      shop_navigate_def shop_query_def shop_type_def shop_click_def sign_in_def shown_def
      shop_location_def)

theorem login_scenario_branches_witness:
  \<open>run shop (scenario login_suite (tests login_suite ! 0)) blank =
     Inr \<lparr> page = InventoryPage, user_field = ''standard_user'', pass_field = ''secret_sauce'',
           error_msg = None, session = Some ''standard_user'', cart = [] \<rparr>
   \<and> str_includes
       (location shop
          \<lparr> page = InventoryPage, user_field = ''standard_user'',
            pass_field = ''secret_sauce'', error_msg = None,
            session = Some ''standard_user'', cart = [] \<rparr>)
       ''inventory''
   \<and> run shop (scenario login_suite (tests login_suite ! 1)) blank =
       Inr \<lparr> page = LoginPage, user_field = ''locked_out_user'', pass_field = ''secret_sauce'',
             error_msg = Some ''Epic sadface: Sorry, this user has been locked out.'',
             session = None, cart = [] \<rparr>
   \<and> holds BeVisible
       (query shop
          \<lparr> page = LoginPage, user_field = ''locked_out_user'', pass_field = ''secret_sauce'',
            error_msg = Some ''Epic sadface: Sorry, this user has been locked out.'',
            session = None, cart = [] \<rparr>
          [''h3[data-test="error"]''])
   \<and> holds (Contain ''locked out'')
       (query shop
          \<lparr> page = LoginPage, user_field = ''locked_out_user'', pass_field = ''secret_sauce'',
            error_msg = Some ''Epic sadface: Sorry, this user has been locked out.'',
            session = None, cart = [] \<rparr>
          [''h3[data-test="error"]''])
   \<and> run shop (scenario login_suite (tests login_suite ! 2)) blank =
       Inr \<lparr> page = InventoryPage, user_field = ''problem_user'', pass_field = ''secret_sauce'',
             error_msg = None, session = Some ''problem_user'', cart = [] \<rparr>
   \<and> str_includes
       (location shop
          \<lparr> page = InventoryPage, user_field = ''problem_user'',
            pass_field = ''secret_sauce'', error_msg = None,
            session = Some ''problem_user'', cart = [] \<rparr>)
       ''inventory''\<close>
proof -
  note branches = login_scenario_branches [THEN conjunct2, THEN conjunct2, rule_format]
  have r0: "run shop (scenario login_suite (tests login_suite ! 0)) blank =
     Inr \<lparr> page = InventoryPage, user_field = ''standard_user'', pass_field = ''secret_sauce'',
           error_msg = None, session = Some ''standard_user'', cart = [] \<rparr>"
    unfolding login_suite_nth by (rule shop_standard_run)
  have r1: \<open>run shop (scenario login_suite (tests login_suite ! 1)) blank =
     Inr \<lparr> page = LoginPage, user_field = ''locked_out_user'', pass_field = ''secret_sauce'',
           error_msg = Some ''Epic sadface: Sorry, this user has been locked out.'',
           session = None, cart = [] \<rparr>\<close>
    unfolding login_suite_nth by (rule shop_locked_out_run)
  have r2: "run shop (scenario login_suite (tests login_suite ! 2)) blank =
     Inr \<lparr> page = InventoryPage, user_field = ''problem_user'', pass_field = ''secret_sauce'',
           error_msg = None, session = Some ''problem_user'', cart = [] \<rparr>"
    unfolding login_suite_nth by (rule shop_problem_run)
  have i0: "0 < length users" and i1: "1 < length users" and i2: "2 < length users"
    by (simp_all add: users_def)
  note p0 = branches [OF i0, THEN conjunct2, THEN conjunct2, rule_format, OF r0]
  note p1 = branches [OF i1, THEN conjunct2, THEN conjunct2, rule_format, OF r1]
  note p2 = branches [OF i2, THEN conjunct2, THEN conjunct2, rule_format, OF r2]
  from p0 have q0: "str_includes
       (location shop
          \<lparr> page = InventoryPage, user_field = ''standard_user'',
            pass_field = ''secret_sauce'', error_msg = None,
            session = Some ''standard_user'', cart = [] \<rparr>)
       ''inventory''"
    unfolding users_nth by (simp del: str_includes.simps)
  from p1 have q1: \<open>holds BeVisible
       (query shop
          \<lparr> page = LoginPage, user_field = ''locked_out_user'', pass_field = ''secret_sauce'',
            error_msg = Some ''Epic sadface: Sorry, this user has been locked out.'',
            session = None, cart = [] \<rparr>
          [''h3[data-test="error"]''])
   \<and> holds (Contain ''locked out'')
       (query shop
          \<lparr> page = LoginPage, user_field = ''locked_out_user'', pass_field = ''secret_sauce'',
            error_msg = Some ''Epic sadface: Sorry, this user has been locked out.'',
            session = None, cart = [] \<rparr>
          [''h3[data-test="error"]''])\<close>
    unfolding users_nth by (simp del: holds.simps)
  from p2 have q2: "str_includes
       (location shop
          \<lparr> page = InventoryPage, user_field = ''problem_user'',
            pass_field = ''secret_sauce'', error_msg = None,
            session = Some ''problem_user'', cart = [] \<rparr>)
       ''inventory''"
    unfolding users_nth by (simp del: str_includes.simps)
  show ?thesis
    using r0 q0 r1 q1 r2 q2 by (intro conjI) (erule conjunct1 conjunct2 | assumption)+
qed

text \<open>
  C8. The list of usernames is the fixed three-element list; the login suite holds one
  scenario per username, titled after it, each issuing the login command with that
  username and the constant password \<open>secret_sauce\<close>; the scenarios stand, and so
  execute, in the order of the list.
\<close>

theorem login_suite_one_scenario_per_user:
  "users = [''standard_user'', ''locked_out_user'', ''problem_user'']
   \<and> length (scenarios login_suite) = 3
   \<and> map fst (scenarios login_suite) =
       map (\<lambda>u. ''should handle login attempt for '' @ u) users
   \<and> map (\<lambda>t. take 4 (snd t)) (tests login_suite) =
       map (\<lambda>u. login u ''secret_sauce'') users
   \<and> map snd (scenarios login_suite) =
       map (\<lambda>u. beforeEach login_suite @ snd (login_test u)) users"
  by (simp add: users_def scenarios_def scenario_def login_suite_def login_test_def login_def)

section \<open>The product suite\<close>

lemma product_scenarios:
  "scenario product_suite (tests product_suite ! 0) =
     [Visit ''https://www.saucedemo.com/'', ClearAllCookies, ClearAllLocalStorage] @
     login ''standard_user'' ''secret_sauce'' @
     [Get ''.inventory_list'' [Find ''.inventory_item'', Should (HaveLength 6)]]"
  "scenario product_suite (tests product_suite ! 1) =
     [Visit ''https://www.saucedemo.com/'', ClearAllCookies, ClearAllLocalStorage] @
     login ''standard_user'' ''secret_sauce'' @
     [Get ''#add-to-cart-sauce-labs-backpack'' [Click],
      Get ''.shopping_cart_link'' [Should (HaveText ''1'')]]"
  by (simp_all add: scenario_def product_suite_def)

lemma product_titles:
  "map fst (tests product_suite) =
     [''should display all 6 products on inventory page'',
      ''should add product to cart and update badge'']"
  by (simp add: product_suite_def)

lemma product_count_passed:
  assumes "run A (scenario product_suite (tests product_suite ! 0)) s = Inr s'"
  shows "length (query A s' [''.inventory_list'', ''.inventory_item'']) = 6"
proof -
  from assms obtain s1 where
    "run A (snd (tests product_suite ! 0)) s1 = Inr s'"
    by (rule scenario_passed)
  then show ?thesis
    by (simp add: product_suite_def split: if_splits)
qed

text \<open>
  C5. The scenario ``should display all 6 products on inventory page'' runs after a
  setup that logs in as \<open>standard_user\<close>, and its one assertion is that the item
  elements found within the listing container number 6. Whenever it passes, on any
  application and from any state, the container of the state it ends in holds exactly
  6 items.
\<close>

theorem product_listing_has_six_items:
  "fst (tests product_suite ! 0) = ''should display all 6 products on inventory page''
   \<and> scenario product_suite (tests product_suite ! 0) =
       [Visit ''https://www.saucedemo.com/'', ClearAllCookies, ClearAllLocalStorage] @
       login ''standard_user'' ''secret_sauce'' @
       [Get ''.inventory_list'' [Find ''.inventory_item'', Should (HaveLength 6)]]
   \<and> checks_of (scenario product_suite (tests product_suite ! 0)) =
       [(Element [''.inventory_list'', ''.inventory_item''], HaveLength 6)]
   \<and> (\<forall>A s s'. run A (scenario product_suite (tests product_suite ! 0)) s = Inr s' \<longrightarrow>
        length (query A s' [''.inventory_list'', ''.inventory_item'']) = 6)"
proof -
  have "fst (tests product_suite ! 0) = ''should display all 6 products on inventory page''"
    by (simp add: product_suite_def)
  moreover have "checks_of (scenario product_suite (tests product_suite ! 0)) =
       [(Element [''.inventory_list'', ''.inventory_item''], HaveLength 6)]"
    by (simp add: product_scenarios login_def checks_of_def)
  ultimately show ?thesis
    using product_scenarios(1) product_count_passed by blast
qed

lemma shop_product_count_run:
  "run shop (scenario product_suite (tests product_suite ! 0)) blank =
     Inr \<lparr> page = InventoryPage, user_field = ''standard_user'', pass_field = ''secret_sauce'',
           error_msg = None, session = Some ''standard_user'', cart = [] \<rparr>"
  by (simp add: product_scenarios login_def shop_def blank_def
      shop_navigate_def shop_query_def shop_type_def shop_click_def sign_in_def shown_def
      products_def)

theorem product_listing_has_six_items_witness:
  "run shop (scenario product_suite (tests product_suite ! 0)) blank =
     Inr \<lparr> page = InventoryPage, user_field = ''standard_user'', pass_field = ''secret_sauce'',
           error_msg = None, session = Some ''standard_user'', cart = [] \<rparr>
   \<and> length (query shop
        \<lparr> page = InventoryPage, user_field = ''standard_user'', pass_field = ''secret_sauce'',
          error_msg = None, session = Some ''standard_user'', cart = [] \<rparr>
        [''.inventory_list'', ''.inventory_item'']) = 6"
proof -
  note passed = product_listing_has_six_items [THEN conjunct2, THEN conjunct2,
      THEN conjunct2, rule_format, OF shop_product_count_run]
  from passed shop_product_count_run show ?thesis
    by simp
qed

lemma badge_passed:
  assumes "run A (scenario product_suite (tests product_suite ! 1)) s = Inr s'"
  shows "\<exists>s1. run A (beforeEach product_suite) s = Inr s1
           \<and> s' = click A [''#add-to-cart-sauce-labs-backpack''] s1
           \<and> concat (map el_text (query A s' [''.shopping_cart_link''])) = ''1''"
proof -
  from assms obtain s1 where
    "run A (beforeEach product_suite) s = Inr s1"
    "run A (snd (tests product_suite ! 1)) s1 = Inr s'"
    by (rule scenario_passed)
  then show ?thesis
    by (auto simp: product_suite_def split: if_splits)
qed

text \<open>
  C4, as the code has it. The scenario ``should add product to cart and update badge''
  clicks the add-to-cart control of \<open>sauce-labs-backpack\<close> and then asserts that the text
  of the cart link is exactly \<open>1\<close>; that is its only assertion, and nothing up to and
  including the click is an assertion. Whenever the scenario passes, the state it ends
  in is the state the click leaves, and the cart link's text there is \<open>1\<close>. What the
  badge shows before the click is not checked.
\<close>

theorem badge_is_one_after_click:
  "scenario product_suite (tests product_suite ! 1) =
     beforeEach product_suite @
     [Get ''#add-to-cart-sauce-labs-backpack'' [Click],
      Get ''.shopping_cart_link'' [Should (HaveText ''1'')]]
   \<and> checks_of (beforeEach product_suite @ [Get ''#add-to-cart-sauce-labs-backpack'' [Click]]) = []
   \<and> checks_of (scenario product_suite (tests product_suite ! 1)) =
       [(Element [''.shopping_cart_link''], HaveText ''1'')]
   \<and> (\<forall>A s s'. run A (scenario product_suite (tests product_suite ! 1)) s = Inr s' \<longrightarrow>
        (\<exists>s1. run A (beforeEach product_suite) s = Inr s1
           \<and> s' = click A [''#add-to-cart-sauce-labs-backpack''] s1
           \<and> concat (map el_text (query A s' [''.shopping_cart_link''])) = ''1''))"
proof -
  have "scenario product_suite (tests product_suite ! 1) =
     beforeEach product_suite @
     [Get ''#add-to-cart-sauce-labs-backpack'' [Click],
      Get ''.shopping_cart_link'' [Should (HaveText ''1'')]]"
    by (simp add: scenario_def product_suite_def)
  moreover have
    "checks_of (beforeEach product_suite @ [Get ''#add-to-cart-sauce-labs-backpack'' [Click]]) = []"
    by (simp add: product_suite_def login_def checks_of_def)
  moreover have "checks_of (scenario product_suite (tests product_suite ! 1)) =
       [(Element [''.shopping_cart_link''], HaveText ''1'')]"
    unfolding product_scenarios by (simp add: login_def checks_of_def)
  ultimately show ?thesis
    using badge_passed by blast
qed

lemma shop_badge_run:
  "run shop (scenario product_suite (tests product_suite ! 1)) blank =
     Inr \<lparr> page = InventoryPage, user_field = ''standard_user'', pass_field = ''secret_sauce'',
           error_msg = None, session = Some ''standard_user'',
           cart = [''sauce-labs-backpack''] \<rparr>"
  unfolding product_scenarios
  by (simp add: login_def shop_def blank_def
      shop_navigate_def shop_query_def shop_type_def shop_click_def sign_in_def shown_def
      products_def badge_def)

theorem badge_is_one_after_click_witness:
  "run shop (scenario product_suite (tests product_suite ! 1)) blank =
     Inr \<lparr> page = InventoryPage, user_field = ''standard_user'', pass_field = ''secret_sauce'',
           error_msg = None, session = Some ''standard_user'',
           cart = [''sauce-labs-backpack''] \<rparr>
   \<and> concat (map el_text (query shop
        \<lparr> page = InventoryPage, user_field = ''standard_user'', pass_field = ''secret_sauce'',
          error_msg = None, session = Some ''standard_user'',
          cart = [''sauce-labs-backpack''] \<rparr>
        [''.shopping_cart_link''])) = ''1''"
proof -
  note passed = badge_is_one_after_click [THEN conjunct2, THEN conjunct2,
      THEN conjunct2, rule_format, OF shop_badge_run]
  from passed shop_badge_run show ?thesis
    by blast
qed

text \<open>
  C4, as the claim states it, fails: on the shop whose cart link reads \<open>1\<close> throughout,
  the scenario passes from the blank state although the cart link's text before the
  click, in the state the setup leaves, is \<open>1\<close>: neither absent nor \<open>0\<close>.
\<close>

theorem badge_before_click_counterexample:
  "run fixed_badge_shop (beforeEach product_suite) blank =
     Inr \<lparr> page = InventoryPage, user_field = ''standard_user'', pass_field = ''secret_sauce'',
           error_msg = None, session = Some ''standard_user'', cart = [] \<rparr>
   \<and> concat (map el_text (query fixed_badge_shop
        \<lparr> page = InventoryPage, user_field = ''standard_user'', pass_field = ''secret_sauce'',
          error_msg = None, session = Some ''standard_user'', cart = [] \<rparr>
        [''.shopping_cart_link''])) = ''1''
   \<and> run fixed_badge_shop (scenario product_suite (tests product_suite ! 1)) blank =
       Inr \<lparr> page = InventoryPage, user_field = ''standard_user'', pass_field = ''secret_sauce'',
             error_msg = None, session = Some ''standard_user'',
             cart = [''sauce-labs-backpack''] \<rparr>"
  unfolding product_scenarios
  by (simp add: product_suite_def login_def fixed_badge_shop_def shop_def
      blank_def shop_navigate_def shop_query_def shop_type_def shop_click_def sign_in_def
      shown_def products_def)

section \<open>The cart suite\<close>

lemma cart_setup:
  "beforeEach cart_suite =
     [Visit ''https://www.saucedemo.com/''] @
     login ''standard_user'' ''secret_sauce'' @
     [ Get ''#add-to-cart-sauce-labs-backpack'' [Click],
       Get ''.shopping_cart_link'' [Click] ]"
  by (simp add: cart_suite_def)

lemma cart_bodies:
  "tests cart_suite ! 0 =
     (''should display the added product in cart'',
      [Get ''.cart_item'' [Should (HaveLength 1)]])"
  "tests cart_suite ! 1 =
     (''should remove product from cart successfully'',
      [Get ''#remove-sauce-labs-backpack'' [Click],
       Get ''.inventory_item_name'' [Should NotExist]])"
  "tests cart_suite ! 2 =
     (''should navigate to checkout page'',
      [Get ''#checkout'' [Click],
       Url [Should (Include ''checkout-step-one'')]])"
  by (simp_all add: cart_suite_def)

lemma cart_item_passed:
  assumes "run A (scenario cart_suite (tests cart_suite ! 0)) s = Inr s'"
  shows "run A (beforeEach cart_suite) s = Inr s' \<and> length (query A s' [''.cart_item'']) = 1"
proof -
  from assms obtain s1 where
    "run A (beforeEach cart_suite) s = Inr s1"
    "run A (snd (tests cart_suite ! 0)) s1 = Inr s'"
    by (rule scenario_passed)
  then show ?thesis
    unfolding cart_bodies by (auto split: if_splits)
qed

lemma cart_remove_passed:
  assumes "run A (scenario cart_suite (tests cart_suite ! 1)) s = Inr s'"
  shows "\<exists>s1. run A (beforeEach cart_suite) s = Inr s1
           \<and> s' = click A [''#remove-sauce-labs-backpack''] s1
           \<and> query A s' [''.inventory_item_name''] = []"
proof -
  from assms obtain s1 where
    "run A (beforeEach cart_suite) s = Inr s1"
    "run A (snd (tests cart_suite ! 1)) s1 = Inr s'"
    by (rule scenario_passed)
  then show ?thesis
    unfolding cart_bodies by (auto split: if_splits)
qed

lemma cart_checkout_passed:
  assumes "run A (scenario cart_suite (tests cart_suite ! 2)) s = Inr s'"
  shows "\<exists>s1. run A (beforeEach cart_suite) s = Inr s1
           \<and> s' = click A [''#checkout''] s1
           \<and> str_includes (location A s') ''checkout-step-one''"
proof -
  from assms obtain s1 where
    "run A (beforeEach cart_suite) s = Inr s1"
    "run A (snd (tests cart_suite ! 2)) s1 = Inr s'"
    by (rule scenario_passed)
  then show ?thesis
    unfolding cart_bodies by (auto split: if_splits)
qed

text \<open>
  C6. The setup of the cart suite logs in as \<open>standard_user\<close>, adds
  \<open>sauce-labs-backpack\<close> and opens the cart. The first scenario asserts that the cart
  items number 1: whenever it passes, the state it ends in is the state the setup
  leaves, and exactly one cart item is present there. The second scenario clicks the
  item's remove control and asserts that no product-name element exists: whenever it
  passes, the state it ends in is the state that click leaves, and no product-name
  element is present there.
\<close>

theorem cart_holds_one_item_then_none:
  "beforeEach cart_suite =
     [Visit ''https://www.saucedemo.com/''] @
     login ''standard_user'' ''secret_sauce'' @
     [ Get ''#add-to-cart-sauce-labs-backpack'' [Click],
       Get ''.shopping_cart_link'' [Click] ]
   \<and> snd (tests cart_suite ! 0) = [Get ''.cart_item'' [Should (HaveLength 1)]]
   \<and> snd (tests cart_suite ! 1) =
       [ Get ''#remove-sauce-labs-backpack'' [Click],
         Get ''.inventory_item_name'' [Should NotExist] ]
   \<and> (\<forall>A s s'. run A (scenario cart_suite (tests cart_suite ! 0)) s = Inr s' \<longrightarrow>
        run A (beforeEach cart_suite) s = Inr s'
      \<and> length (query A s' [''.cart_item'']) = 1)
   \<and> (\<forall>A s s'. run A (scenario cart_suite (tests cart_suite ! 1)) s = Inr s' \<longrightarrow>
        (\<exists>s1. run A (beforeEach cart_suite) s = Inr s1
           \<and> s' = click A [''#remove-sauce-labs-backpack''] s1
           \<and> query A s' [''.inventory_item_name''] = []))"
proof -
  have "snd (tests cart_suite ! 0) = [Get ''.cart_item'' [Should (HaveLength 1)]]"
    unfolding cart_bodies by simp
  moreover have "snd (tests cart_suite ! 1) =
       [ Get ''#remove-sauce-labs-backpack'' [Click],
         Get ''.inventory_item_name'' [Should NotExist] ]"
    unfolding cart_bodies by simp
  moreover have
    "\<forall>A s s'. run A (scenario cart_suite (tests cart_suite ! 0)) s = Inr s' \<longrightarrow>
        run A (beforeEach cart_suite) s = Inr s'
      \<and> length (query A s' [''.cart_item'']) = 1"
    using cart_item_passed by blast
  moreover have
    "\<forall>A s s'. run A (scenario cart_suite (tests cart_suite ! 1)) s = Inr s' \<longrightarrow>
        (\<exists>s1. run A (beforeEach cart_suite) s = Inr s1
           \<and> s' = click A [''#remove-sauce-labs-backpack''] s1
           \<and> query A s' [''.inventory_item_name''] = [])"
    using cart_remove_passed by blast
  ultimately show ?thesis
    using cart_setup by (intro conjI)
qed

lemma shop_cart_item_run:
  "run shop (scenario cart_suite (tests cart_suite ! 0)) blank =
     Inr \<lparr> page = CartPage, user_field = ''standard_user'', pass_field = ''secret_sauce'',
           error_msg = None, session = Some ''standard_user'',
           cart = [''sauce-labs-backpack''] \<rparr>"
  unfolding scenario_def cart_setup cart_bodies
  by (simp add: login_def shop_def blank_def
      shop_navigate_def shop_query_def shop_type_def shop_click_def sign_in_def shown_def
      products_def)

lemma shop_cart_remove_run:
  "run shop (scenario cart_suite (tests cart_suite ! 1)) blank =
     Inr \<lparr> page = CartPage, user_field = ''standard_user'', pass_field = ''secret_sauce'',
           error_msg = None, session = Some ''standard_user'', cart = [] \<rparr>"
  unfolding scenario_def cart_setup cart_bodies
  by (simp add: login_def shop_def blank_def
      shop_navigate_def shop_query_def shop_type_def shop_click_def sign_in_def shown_def
      products_def)

theorem cart_holds_one_item_then_none_witness:
  "run shop (scenario cart_suite (tests cart_suite ! 0)) blank =
     Inr \<lparr> page = CartPage, user_field = ''standard_user'', pass_field = ''secret_sauce'',
           error_msg = None, session = Some ''standard_user'',
           cart = [''sauce-labs-backpack''] \<rparr>
   \<and> length (query shop
        \<lparr> page = CartPage, user_field = ''standard_user'', pass_field = ''secret_sauce'',
          error_msg = None, session = Some ''standard_user'',
          cart = [''sauce-labs-backpack''] \<rparr>
        [''.cart_item'']) = 1
   \<and> run shop (scenario cart_suite (tests cart_suite ! 1)) blank =
       Inr \<lparr> page = CartPage, user_field = ''standard_user'', pass_field = ''secret_sauce'',
             error_msg = None, session = Some ''standard_user'', cart = [] \<rparr>
   \<and> query shop
        \<lparr> page = CartPage, user_field = ''standard_user'', pass_field = ''secret_sauce'',
          error_msg = None, session = Some ''standard_user'', cart = [] \<rparr>
        [''.inventory_item_name''] = []"
proof -
  note one = cart_holds_one_item_then_none [THEN conjunct2, THEN conjunct2,
      THEN conjunct2, THEN conjunct1, rule_format, OF shop_cart_item_run]
  note none = cart_holds_one_item_then_none [THEN conjunct2, THEN conjunct2,
      THEN conjunct2, THEN conjunct2, rule_format, OF shop_cart_remove_run]
  from one none shop_cart_item_run shop_cart_remove_run show ?thesis
    by blast
qed

text \<open>
  C7. The third scenario of the cart suite starts from the cart view the setup leaves
  (one product added), clicks the checkout control and asserts that the location
  contains \<open>checkout-step-one\<close>. Whenever it passes, the state it ends in is the state
  the click on the checkout control leaves, and the location there contains
  \<open>checkout-step-one\<close>.
\<close>

theorem checkout_reaches_step_one:
  "scenario cart_suite (tests cart_suite ! 2) =
     beforeEach cart_suite @
     [Get ''#checkout'' [Click], Url [Should (Include ''checkout-step-one'')]]
   \<and> (\<forall>A s s'. run A (scenario cart_suite (tests cart_suite ! 2)) s = Inr s' \<longrightarrow>
        (\<exists>s1. run A (beforeEach cart_suite) s = Inr s1
           \<and> s' = click A [''#checkout''] s1
           \<and> str_includes (location A s') ''checkout-step-one''))"
proof -
  have "scenario cart_suite (tests cart_suite ! 2) =
     beforeEach cart_suite @
     [Get ''#checkout'' [Click], Url [Should (Include ''checkout-step-one'')]]"
    unfolding scenario_def cart_bodies by simp
  then show ?thesis
    using cart_checkout_passed by blast
qed

lemma shop_checkout_run:
  "run shop (scenario cart_suite (tests cart_suite ! 2)) blank =
     Inr \<lparr> page = CheckoutStepOne, user_field = ''standard_user'',
           pass_field = ''secret_sauce'', error_msg = None, session = Some ''standard_user'',
           cart = [''sauce-labs-backpack''] \<rparr>"
  unfolding scenario_def cart_setup cart_bodies
  by (simp add: login_def shop_def blank_def
      shop_navigate_def shop_query_def shop_type_def shop_click_def sign_in_def shown_def
      products_def shop_location_def)

theorem checkout_reaches_step_one_witness:
  "run shop (scenario cart_suite (tests cart_suite ! 2)) blank =
     Inr \<lparr> page = CheckoutStepOne, user_field = ''standard_user'',
           pass_field = ''secret_sauce'', error_msg = None, session = Some ''standard_user'',
           cart = [''sauce-labs-backpack''] \<rparr>
   \<and> str_includes
       (location shop
          \<lparr> page = CheckoutStepOne, user_field = ''standard_user'',
            pass_field = ''secret_sauce'', error_msg = None, session = Some ''standard_user'',
            cart = [''sauce-labs-backpack''] \<rparr>)
       ''checkout-step-one''"
proof -
  note passed = checkout_reaches_step_one [THEN conjunct2, rule_format, OF shop_checkout_run]
  from passed shop_checkout_run show ?thesis
    by blast
qed

section \<open>What the setup hooks clear\<close>

lemma suites_cases:
  "S \<in> set suites \<longleftrightarrow> S = login_suite \<or> S = product_suite \<or> S = cart_suite"
  by (auto simp: suites_def)

lemma product_tests_cases:
  "t \<in> set (tests product_suite) \<longleftrightarrow>
     t = tests product_suite ! 0 \<or> t = tests product_suite ! 1"
  by (auto simp: product_suite_def)

lemma cart_tests_cases:
  "t \<in> set (tests cart_suite) \<longleftrightarrow>
     t = tests cart_suite ! 0 \<or> t = tests cart_suite ! 1 \<or> t = tests cart_suite ! 2"
  by (auto simp: cart_suite_def)

lemma setup_starts_with_visit:
  "S \<in> set suites \<Longrightarrow> hd (scenario S t) = Visit ''https://www.saucedemo.com/''"
  unfolding suites_cases scenario_def
  by (auto simp: login_suite_def product_suite_def cart_suite_def)

lemma login_suite_clears:
  assumes "t \<in> set (tests login_suite)"
  shows "positions ClearAllCookies (scenario login_suite t) = [1]"
    and "positions ClearAllLocalStorage (scenario login_suite t) = [2]"
  using assms unfolding login_tests_cases
  by (auto simp: positions_def scenario_def login_suite_def login_test_def login_def)

lemma product_suite_clears:
  assumes "t \<in> set (tests product_suite)"
  shows "positions ClearAllCookies (scenario product_suite t) = [1]"
    and "positions ClearAllLocalStorage (scenario product_suite t) = [2]"
  using assms unfolding product_tests_cases
  by (auto simp: positions_def scenario_def product_suite_def login_def)

lemma cart_suite_clears_nothing:
  assumes "t \<in> set (tests cart_suite)"
  shows "positions ClearAllCookies (scenario cart_suite t) = []"
    and "positions ClearAllLocalStorage (scenario cart_suite t) = []"
  using assms unfolding cart_tests_cases
  by (auto simp: positions_def scenario_def cart_suite_def login_def)

lemma clearing_hooks:
  assumes "S = login_suite \<or> S = product_suite"
  shows "take 3 (beforeEach S) =
           [Visit ''https://www.saucedemo.com/'', ClearAllCookies, ClearAllLocalStorage]"
    and "2 < length (beforeEach S)"
  using assms by (auto simp: login_suite_def product_suite_def)

lemma clearing_suite_positions:
  assumes "S = login_suite \<or> S = product_suite" and "t \<in> set (tests S)"
  shows "positions ClearAllCookies (scenario S t) = [1]"
    and "positions ClearAllLocalStorage (scenario S t) = [2]"
  using assms login_suite_clears product_suite_clears by blast+

lemma body_runs_from_cleared_state:
  assumes "S = login_suite \<or> S = product_suite"
  shows "run A (scenario S t) s =
           run A (drop 3 (scenario S t))
             (clear_local_storage A
                (clear_cookies A (navigate A ''https://www.saucedemo.com/'' s)))"
  using assms by (auto simp: scenario_def login_suite_def product_suite_def)

lemma nothing_crosses_but_through_clearing:
  assumes "S = login_suite \<or> S = product_suite"
    and "clear_local_storage A (clear_cookies A (navigate A ''https://www.saucedemo.com/'' s)) =
         clear_local_storage A (clear_cookies A (navigate A ''https://www.saucedemo.com/'' s'))"
  shows "run A (scenario S t) s = run A (scenario S t) s'"
  unfolding body_runs_from_cleared_state [OF assms(1)] assms(2) by (rule refl)

text \<open>
  C3, as the code has it. The file registers the three suites, with three, two and
  three scenarios. Every scenario of every suite consists of its suite's setup hook
  followed by its body and begins with a navigation to the application root. In the
  login suite and in the product suite the hook goes on to clear all cookies and all
  local storage; every scenario of these two suites has these as its only clearing
  commands, at positions 1 and 2 of its queue, within the hook and hence before the
  body. So the rest of such a scenario runs from the state that navigation and clearing
  leave, on any application and from any state: whatever an earlier scenario left
  reaches it only through what survives the navigation and the clearing of cookies and
  local storage, and from two states that these three steps take to the same state the
  scenario runs the same. The setup hook of the cart suite is the navigation to the
  root, the login as \<open>standard_user\<close>, the click on the add-to-cart control of
  \<open>sauce-labs-backpack\<close> and the click on the cart link; the scenarios of the cart
  suite issue no clearing command at all.
\<close>

theorem setup_clears_in_login_and_product_suites:
  "suites = [login_suite, product_suite, cart_suite]
   \<and> length (tests login_suite) = 3
   \<and> length (tests product_suite) = 2
   \<and> length (tests cart_suite) = 3
   \<and> (\<forall>S \<in> set suites. \<forall>t \<in> set (tests S).
        hd (scenario S t) = Visit ''https://www.saucedemo.com/''
      \<and> take (length (beforeEach S)) (scenario S t) = beforeEach S)
   \<and> (\<forall>S \<in> {login_suite, product_suite}.
        take 3 (beforeEach S) =
          [Visit ''https://www.saucedemo.com/'', ClearAllCookies, ClearAllLocalStorage]
      \<and> (\<forall>t \<in> set (tests S).
           positions ClearAllCookies (scenario S t) = [1]
         \<and> positions ClearAllLocalStorage (scenario S t) = [2]
         \<and> 2 < length (beforeEach S)
         \<and> (\<forall>A s. run A (scenario S t) s =
               run A (drop 3 (scenario S t))
                 (clear_local_storage A
                    (clear_cookies A (navigate A ''https://www.saucedemo.com/'' s))))
         \<and> (\<forall>A s s'.
               clear_local_storage A
                 (clear_cookies A (navigate A ''https://www.saucedemo.com/'' s)) =
               clear_local_storage A
                 (clear_cookies A (navigate A ''https://www.saucedemo.com/'' s'))
               \<longrightarrow> run A (scenario S t) s = run A (scenario S t) s')))
   \<and> beforeEach cart_suite =
       [Visit ''https://www.saucedemo.com/''] @
       login ''standard_user'' ''secret_sauce'' @
       [ Get ''#add-to-cart-sauce-labs-backpack'' [Click],
         Get ''.shopping_cart_link'' [Click] ]
   \<and> (\<forall>t \<in> set (tests cart_suite).
        positions ClearAllCookies (scenario cart_suite t) = []
      \<and> positions ClearAllLocalStorage (scenario cart_suite t) = [])"
proof -
  have "suites = [login_suite, product_suite, cart_suite]"
    by (rule suites_def)
  moreover have "length (tests login_suite) = 3"
    by (simp add: login_suite_def users_def)
  moreover have "length (tests product_suite) = 2"
    by (simp add: product_suite_def)
  moreover have "length (tests cart_suite) = 3"
    by (simp add: cart_suite_def)
  moreover have "\<forall>S \<in> set suites. \<forall>t \<in> set (tests S).
      hd (scenario S t) = Visit ''https://www.saucedemo.com/''
    \<and> take (length (beforeEach S)) (scenario S t) = beforeEach S"
    using setup_starts_with_visit by (simp add: scenario_def)
  moreover have "\<forall>S \<in> {login_suite, product_suite}.
        take 3 (beforeEach S) =
          [Visit ''https://www.saucedemo.com/'', ClearAllCookies, ClearAllLocalStorage]
      \<and> (\<forall>t \<in> set (tests S).
           positions ClearAllCookies (scenario S t) = [1]
         \<and> positions ClearAllLocalStorage (scenario S t) = [2]
         \<and> 2 < length (beforeEach S)
         \<and> (\<forall>A s. run A (scenario S t) s =
               run A (drop 3 (scenario S t))
                 (clear_local_storage A
                    (clear_cookies A (navigate A ''https://www.saucedemo.com/'' s))))
         \<and> (\<forall>A s s'.
               clear_local_storage A
                 (clear_cookies A (navigate A ''https://www.saucedemo.com/'' s)) =
               clear_local_storage A
                 (clear_cookies A (navigate A ''https://www.saucedemo.com/'' s'))
               \<longrightarrow> run A (scenario S t) s = run A (scenario S t) s'))"
  proof (intro ballI conjI)
    fix S
    assume "S \<in> {login_suite, product_suite}"
    then have S: "S = login_suite \<or> S = product_suite"
      by blast
    show "take 3 (beforeEach S) =
          [Visit ''https://www.saucedemo.com/'', ClearAllCookies, ClearAllLocalStorage]"
      by (rule clearing_hooks(1) [OF S])
    fix t
    assume t: "t \<in> set (tests S)"
    show "positions ClearAllCookies (scenario S t) = [1]"
      by (rule clearing_suite_positions(1) [OF S t])
    show "positions ClearAllLocalStorage (scenario S t) = [2]"
      by (rule clearing_suite_positions(2) [OF S t])
    show "2 < length (beforeEach S)"
      by (rule clearing_hooks(2) [OF S])
    show "\<forall>A s. run A (scenario S t) s =
               run A (drop 3 (scenario S t))
                 (clear_local_storage A
                    (clear_cookies A (navigate A ''https://www.saucedemo.com/'' s)))"
      by (intro allI) (rule body_runs_from_cleared_state [OF S])
    show "\<forall>A s s'.
               clear_local_storage A
                 (clear_cookies A (navigate A ''https://www.saucedemo.com/'' s)) =
               clear_local_storage A
                 (clear_cookies A (navigate A ''https://www.saucedemo.com/'' s'))
               \<longrightarrow> run A (scenario S t) s = run A (scenario S t) s'"
      by (intro allI impI) (rule nothing_crosses_but_through_clearing [OF S])
  qed
  moreover note cart_setup
  moreover have "\<forall>t \<in> set (tests cart_suite).
        positions ClearAllCookies (scenario cart_suite t) = []
      \<and> positions ClearAllLocalStorage (scenario cart_suite t) = []"
    using cart_suite_clears_nothing by blast
  ultimately show ?thesis
    by (intro conjI)
qed

lemma shop_clearing_resets:
  "clear_local_storage shop
     (clear_cookies shop
        (navigate shop ''https://www.saucedemo.com/''
           \<lparr> page = InventoryPage, user_field = ''standard_user'',
             pass_field = ''secret_sauce'', error_msg = None,
             session = Some ''standard_user'', cart = [''sauce-labs-backpack''] \<rparr>)) =
   clear_local_storage shop
     (clear_cookies shop (navigate shop ''https://www.saucedemo.com/'' blank))"
  by (simp add: shop_def shop_navigate_def blank_def)

theorem setup_clears_in_login_and_product_suites_witness:
  "product_suite \<in> set suites
   \<and> tests product_suite ! 1 \<in> set (tests product_suite)
   \<and> hd (scenario product_suite (tests product_suite ! 1)) = Visit ''https://www.saucedemo.com/''
   \<and> positions ClearAllCookies (scenario product_suite (tests product_suite ! 1)) = [1]
   \<and> positions ClearAllLocalStorage (scenario product_suite (tests product_suite ! 1)) = [2]
   \<and> run shop (scenario product_suite (tests product_suite ! 1))
       \<lparr> page = InventoryPage, user_field = ''standard_user'',
         pass_field = ''secret_sauce'', error_msg = None,
         session = Some ''standard_user'', cart = [''sauce-labs-backpack''] \<rparr> =
     run shop (scenario product_suite (tests product_suite ! 1)) blank
   \<and> run shop (scenario product_suite (tests product_suite ! 1)) blank =
       Inr \<lparr> page = InventoryPage, user_field = ''standard_user'',
             pass_field = ''secret_sauce'', error_msg = None,
             session = Some ''standard_user'', cart = [''sauce-labs-backpack''] \<rparr>
   \<and> tests cart_suite ! 1 \<in> set (tests cart_suite)
   \<and> positions ClearAllCookies (scenario cart_suite (tests cart_suite ! 1)) = []"
proof -
  have a: "product_suite \<in> set suites"
    by (simp add: suites_def)
  have a': "product_suite \<in> {login_suite, product_suite}"
    by simp
  have b: "tests product_suite ! 1 \<in> set (tests product_suite)"
    by (simp add: product_suite_def)
  have c: "tests cart_suite ! 1 \<in> set (tests cart_suite)"
    by (simp add: cart_suite_def)
  note th = setup_clears_in_login_and_product_suites
  note first = th [THEN conjunct2, THEN conjunct2, THEN conjunct2, THEN conjunct2,
      THEN conjunct1, rule_format, OF a b]
  note clearing = th [THEN conjunct2, THEN conjunct2, THEN conjunct2, THEN conjunct2,
      THEN conjunct2, THEN conjunct1, rule_format, OF a', THEN conjunct2, rule_format, OF b]
  note same = clearing [THEN conjunct2, THEN conjunct2, THEN conjunct2, THEN conjunct2,
      rule_format, OF shop_clearing_resets]
  note cart = th [THEN conjunct2, THEN conjunct2, THEN conjunct2, THEN conjunct2,
      THEN conjunct2, THEN conjunct2, THEN conjunct2, rule_format, OF c]
  from a b c first clearing same cart shop_badge_run show ?thesis
    by (intro conjI) (erule conjunct1 conjunct2 | assumption | elim conjE)+
qed

text \<open>
  C3, as the claim states it, fails on the cart suite: it is one of the suites, and its
  setup hook holds neither the clearing of cookies nor the clearing of local storage.
\<close>

theorem cart_setup_clears_nothing_counterexample:
  "cart_suite \<in> set suites
   \<and> ClearAllCookies \<notin> set (beforeEach cart_suite)
   \<and> ClearAllLocalStorage \<notin> set (beforeEach cart_suite)"
  by (simp add: suites_def cart_suite_def login_def)

section \<open>Dependence on the state a scenario starts from\<close>

text \<open>
  The setup hooks of the login and product suites navigate to the root and clear cookies
  and local storage. On an application whose state after these three steps does not
  depend on the state before them, a scenario of these suites runs the same from any
  state.
\<close>

lemma cleared_start_independent:
  assumes "\<And>s s'.
      clear_local_storage A (clear_cookies A (navigate A ''https://www.saucedemo.com/'' s)) =
      clear_local_storage A (clear_cookies A (navigate A ''https://www.saucedemo.com/'' s'))"
    and "S = login_suite \<or> S = product_suite"
  shows "run A (scenario S t) s = run A (scenario S t) s'"
proof -
  from assms(2) obtain rest where
    "scenario S t =
       [Visit ''https://www.saucedemo.com/'', ClearAllCookies, ClearAllLocalStorage] @ rest"
    by (auto simp: scenario_def login_suite_def product_suite_def)
  then show ?thesis
    using assms(1) [of s s'] by simp
qed

text \<open>
  The setup hook of the cart suite clears nothing. On the small shop, which keeps the
  cart in local storage, its first scenario passes from the blank state and fails from
  the state the add-to-cart scenario of the product suite ends in: the add-to-cart
  control of a product already in the cart is not there.
\<close>

lemma shop_cart_scenario_after_product_scenario:
  "run shop (scenario cart_suite (tests cart_suite ! 0))
     \<lparr> page = InventoryPage, user_field = ''standard_user'', pass_field = ''secret_sauce'',
       error_msg = None, session = Some ''standard_user'',
       cart = [''sauce-labs-backpack''] \<rparr> =
   Inl (ElementNotFound [''#add-to-cart-sauce-labs-backpack''])"
  unfolding scenario_def cart_setup cart_bodies
  by (simp add: login_def shop_def
      shop_navigate_def shop_query_def shop_type_def shop_click_def sign_in_def shown_def
      products_def)

end
